theory Spec2Isabelle
  imports Complex_Main "HOL-Library.Multiset" "HOL-Library.Sublist"
begin

section \<open>Python values and exceptions\<close>

text \<open>
  The engine of \<^verbatim>\<open>open_webui/retrieval/agentic_rag.py\<close> is dynamically typed: what a
  language-model response, a decoded JSON object or a tool result holds is any JSON-shaped
  Python value. \<open>pyval\<close> is that universe. A dict is an association list (insertion order,
  keys distinct as in a Python dict); a float is a real number (NaN and infinities are left out).
\<close>

datatype pyval =
    PNone
  | PBool bool
  | PInt int
  | PFloat real
  | PStr string
  | PList "pyval list"
  | PDict "(string \<times> pyval) list"

datatype exn_class =
    IndexError | KeyError | AttributeError | TypeError | ValueError | JSONDecodeError | OtherError

text \<open>An exception: its class and the text of \<^verbatim>\<open>str(e)\<close>.\<close>

datatype exn = Exn exn_class string

fun exn_str :: "exn \<Rightarrow> string" where
  "exn_str (Exn c m) = m"

fun type_name :: "pyval \<Rightarrow> string" where
  "type_name PNone = ''NoneType''"
| "type_name (PBool b) = ''bool''"
| "type_name (PInt i) = ''int''"
| "type_name (PFloat r) = ''float''"
| "type_name (PStr s) = ''str''"
| "type_name (PList xs) = ''list''"
| "type_name (PDict kvs) = ''dict''"

text \<open>The single quote that Python puts around a type name in its messages.\<close>

definition squote :: string where
  "squote = [CHR 0x27]"

text \<open>Truth value of a Python value, as \<^verbatim>\<open>if v:\<close>, \<^verbatim>\<open>v or d\<close> and \<^verbatim>\<open>a and b\<close> test it.\<close>

fun truthy :: "pyval \<Rightarrow> bool" where
  "truthy PNone = False"
| "truthy (PBool b) = b"
| "truthy (PInt i) = (i \<noteq> 0)"
| "truthy (PFloat r) = (r \<noteq> 0)"
| "truthy (PStr s) = (s \<noteq> [])"
| "truthy (PList xs) = (xs \<noteq> [])"
| "truthy (PDict kvs) = (kvs \<noteq> [])"

definition py_or :: "pyval \<Rightarrow> pyval \<Rightarrow> pyval" where
  "py_or a b = (if truthy a then a else b)"

definition py_and :: "pyval \<Rightarrow> pyval \<Rightarrow> pyval" where
  "py_and a b = (if truthy a then b else a)"

text \<open>\<^verbatim>\<open>d.get(k, default)\<close>: only a dict has the method.\<close>

fun py_get :: "pyval \<Rightarrow> string \<Rightarrow> pyval \<Rightarrow> exn + pyval" where
  "py_get (PDict kvs) k d = Inr (case map_of kvs k of Some v \<Rightarrow> v | None \<Rightarrow> d)"
| "py_get v k d =
     Inl (Exn AttributeError
       (squote @ type_name v @ squote @ '' object has no attribute '' @ squote @ ''get'' @ squote))"

text \<open>\<^verbatim>\<open>v[0]\<close>. A dict decoded from JSON has string keys only, so \<^verbatim>\<open>d[0]\<close> is a KeyError.\<close>

fun py_index0 :: "pyval \<Rightarrow> exn + pyval" where
  "py_index0 (PList []) = Inl (Exn IndexError ''list index out of range'')"
| "py_index0 (PList (x # xs)) = Inr x"
| "py_index0 (PStr []) = Inl (Exn IndexError ''string index out of range'')"
| "py_index0 (PStr (c # cs)) = Inr (PStr [c])"
| "py_index0 (PDict kvs) = Inl (Exn KeyError ''0'')"
| "py_index0 v =
     Inl (Exn TypeError (squote @ type_name v @ squote @ '' object is not subscriptable''))"

text \<open>Sequencing of steps that may raise: the first exception ends the sequence.\<close>

fun bindE :: "exn + 'a \<Rightarrow> ('a \<Rightarrow> exn + 'b) \<Rightarrow> exn + 'b" where
  "bindE (Inl e) f = Inl e"
| "bindE (Inr x) f = f x"

text \<open>
  \<^verbatim>\<open>a == b\<close> on JSON-shaped values: booleans and numbers compare by value across their
  types, dicts regardless of the order of their keys.
\<close>

fun num_value :: "pyval \<Rightarrow> real option" where
  "num_value (PBool b) = Some (if b then 1 else 0)"
| "num_value (PInt i) = Some (real_of_int i)"
| "num_value (PFloat r) = Some r"
| "num_value v = None"

fun py_eq :: "pyval \<Rightarrow> pyval \<Rightarrow> bool" where
  "py_eq PNone PNone = True"
| "py_eq (PStr s) (PStr t) = (s = t)"
| "py_eq (PList xs) (PList ys) = list_all2 py_eq xs ys"
| "py_eq (PDict kvs) (PDict kvs') =
     (length kvs = length kvs' \<and>
      list_all (\<lambda>kv. case map_of kvs' (fst kv) of
                         None \<Rightarrow> False
                       | Some v' \<Rightarrow> py_eq (snd kv) v') kvs)"
| "py_eq a b = (case (num_value a, num_value b) of (Some x, Some y) \<Rightarrow> x = y | _ \<Rightarrow> False)"

text \<open>A method that only \<^verbatim>\<open>str\<close> has (\<^verbatim>\<open>find\<close>, \<^verbatim>\<open>upper\<close>, \<^verbatim>\<open>strip\<close>), called on any value.\<close>

fun str_receiver :: "string \<Rightarrow> pyval \<Rightarrow> exn + string" where
  "str_receiver method (PStr s) = Inr s"
| "str_receiver method v =
     Inl (Exn AttributeError
       (squote @ type_name v @ squote @ '' object has no attribute '' @ squote @ method @ squote))"

text \<open>\<^verbatim>\<open>for x in v\<close>: a list gives its elements, a dict its keys, a string its characters.\<close>

fun py_iter :: "pyval \<Rightarrow> exn + pyval list" where
  "py_iter (PList xs) = Inr xs"
| "py_iter (PDict kvs) = Inr (map (\<lambda>kv. PStr (fst kv)) kvs)"
| "py_iter (PStr s) = Inr (map (\<lambda>c. PStr [c]) s)"
| "py_iter v = Inl (Exn TypeError (squote @ type_name v @ squote @ '' object is not iterable''))"

text \<open>Slices: \<^verbatim>\<open>xs[i:j]\<close>, \<^verbatim>\<open>xs[:j]\<close> and \<^verbatim>\<open>xs[-n:]\<close>, with Python's clamping of indices.\<close>

definition clamp_index :: "int \<Rightarrow> nat \<Rightarrow> nat" where
  "clamp_index i n = (if i < 0 then nat (max 0 (int n + i)) else min (nat i) n)"

definition py_slice :: "'a list \<Rightarrow> int \<Rightarrow> int \<Rightarrow> 'a list" where
  "py_slice xs i j =
     (let a = clamp_index i (length xs); b = clamp_index j (length xs)
      in take (b - a) (drop a xs))"

definition py_slice_to :: "'a list \<Rightarrow> int \<Rightarrow> 'a list" where
  "py_slice_to xs j = take (clamp_index j (length xs)) xs"

definition last_n :: "nat \<Rightarrow> 'a list \<Rightarrow> 'a list" where
  "last_n n xs = drop (length xs - n) xs"

text \<open>\<^verbatim>\<open>s.find(c)\<close> and \<^verbatim>\<open>s.rfind(c)\<close> for a one-character \<open>c\<close>: an index, or -1.\<close>

fun py_find :: "string \<Rightarrow> char \<Rightarrow> int" where
  "py_find [] c = - 1"
| "py_find (x # xs) c =
     (if x = c then 0 else (let i = py_find xs c in if i = - 1 then - 1 else i + 1))"

definition py_rfind :: "string \<Rightarrow> char \<Rightarrow> int" where
  "py_rfind s c =
     (let i = py_find (rev s) c in if i = - 1 then - 1 else int (length s) - 1 - i)"

text \<open>
  A character is a code point below 256. \<^verbatim>\<open>s.strip()\<close> removes what \<^verbatim>\<open>str.isspace\<close>
  accepts: of these code points, 9 to 13, 28 to 32, 133 (NEL) and 160 (no-break space).
\<close>

definition is_space :: "char \<Rightarrow> bool" where
  "is_space c =
     (let n = (of_char c :: nat)
      in (9 \<le> n \<and> n \<le> 13) \<or> (28 \<le> n \<and> n \<le> 32) \<or> n = 133 \<or> n = 160)"

definition strip :: "string \<Rightarrow> string" where
  "strip s = rev (dropWhile is_space (rev (dropWhile is_space s)))"

definition nl :: string where
  "nl = [CHR 0x0A]"

section \<open>Reading a Language Model Gateway response\<close>

text \<open>
  The expression
  \<^verbatim>\<open>response.get("choices", [{}])[0].get("message", {}).get("content", "")\<close>
  of \<open>analyze_query\<close>, \<open>interact_with_mcp_servers\<close>, \<open>generate_answer\<close>,
  \<open>validate_answer\<close> and \<open>rewrite_query\<close>.
\<close>

definition response_content :: "pyval \<Rightarrow> exn + pyval" where
  "response_content response =
     bindE (py_get response ''choices'' (PList [PDict []])) (\<lambda>choices.
     bindE (py_index0 choices) (\<lambda>choice.
     bindE (py_get choice ''message'' (PDict [])) (\<lambda>message.
     py_get message ''content'' (PStr []))))"

section \<open>Text helpers\<close>

text \<open>
  \<^verbatim>\<open>str.lower\<close> and \<^verbatim>\<open>str.upper\<close> on the code points below 256: the letters A to Z
  and the capital letters 192 to 222 (all but the multiplication sign 215) have their
  lower-case form 32 places up, and back. The upper-case form of 223 (sharp s) is \<^verbatim>\<open>SS\<close>.
  The upper-case forms of 181 (micro sign) and 255 (y with diaeresis) are code points above
  255; \<open>upper\<close> keeps these two characters.
\<close>

definition lower_char :: "char \<Rightarrow> char" where
  "lower_char c =
     (let n = (of_char c :: nat)
      in if (65 \<le> n \<and> n \<le> 90) \<or> (192 \<le> n \<and> n \<le> 222 \<and> n \<noteq> 215)
         then char_of (n + 32) else c)"

definition lower :: "string \<Rightarrow> string" where
  "lower s = map lower_char s"

definition upper_char :: "char \<Rightarrow> string" where
  "upper_char c =
     (let n = (of_char c :: nat)
      in if (97 \<le> n \<and> n \<le> 122) \<or> (224 \<le> n \<and> n \<le> 254 \<and> n \<noteq> 247)
         then [char_of (n - 32)]
         else if n = 223 then ''SS'' else [c])"

definition upper :: "string \<Rightarrow> string" where
  "upper s = concat (map upper_char s)"

text \<open>\<^verbatim>\<open>any(word in text for word in words)\<close>; \<^verbatim>\<open>in\<close> on strings is the substring test.\<close>

definition any_word_in :: "string list \<Rightarrow> string \<Rightarrow> bool" where
  "any_word_in words text = list_ex (\<lambda>word. sublist word text) words"

section \<open>Keyword fallbacks\<close>

definition parse_analysis_from_text :: "string \<Rightarrow> pyval" where
  "parse_analysis_from_text text =
     (let text_lower = lower text;
          needs_data = any_word_in [''need'', ''require'', ''yes'', ''true''] text_lower
      in PDict [(''needs_additional_data'', PBool needs_data),
                (''rewritten_query'', PNone),
                (''reasoning'', PStr text),
                (''confidence'', PFloat 0.6)])"

definition parse_validation_from_text :: "string \<Rightarrow> pyval" where
  "parse_validation_from_text text =
     (let text_lower = lower text;
          is_correct = (\<not> any_word_in [''incorrect'', ''wrong'', ''false'', ''no''] text_lower);
          is_relevant = (\<not> any_word_in [''irrelevant'', ''not relevant'', ''no''] text_lower)
      in PDict [(''is_correct'', PBool is_correct),
                (''is_relevant'', PBool is_relevant),
                (''reasoning'', PStr text),
                (''confidence'', PFloat 0.6)])"

section \<open>Result classes\<close>

record QueryAnalysisResult =
  needs_additional_data :: pyval
  rewritten_query :: pyval
  qa_reasoning :: pyval
  qa_confidence :: pyval

record AnswerValidationResult =
  is_correct :: pyval
  is_relevant :: pyval
  reasoning :: pyval
  confidence :: pyval
  is_valid :: pyval

text \<open>The constructor of \<open>AnswerValidationResult\<close>: \<open>is_valid\<close> is \<^verbatim>\<open>is_correct and is_relevant\<close>.\<close>

definition mk_AnswerValidationResult ::
  "pyval \<Rightarrow> pyval \<Rightarrow> pyval \<Rightarrow> pyval \<Rightarrow> AnswerValidationResult" where
  "mk_AnswerValidationResult c r re co =
     \<lparr>is_correct = c, is_relevant = r, reasoning = re, confidence = co,
      is_valid = py_and c r\<rparr>"

section \<open>Collaborators, effects and the engine\<close>

text \<open>
  A message of a generation request. The fixed instruction texts (the \<open>system_prompt\<close>
  strings of the source) are named, not spelled out; an f-string is the list of its literal
  pieces and interpolated values, so that no rendering of a value as text is needed.
  \<open>Raw\<close> is a caller's chat-history entry passed through as it is.
\<close>

datatype frag = Lit string | Val pyval | Dumps pyval

datatype instruction =
    QueryAnalysisPrompt
  | ToolSelectionPrompt pyval
  | AnswerPrompt
  | ValidationPrompt
  | RewritePrompt

datatype message =
    System instruction
  | User "frag list"
  | Raw pyval

text \<open>
  One search result (the spec's RetrievedSource): a dict that may hold the keys
  \<^verbatim>\<open>"document"\<close> and \<^verbatim>\<open>"metadata"\<close>; \<open>None\<close> is an absent key.
\<close>

record source =
  document :: "string list option"
  metadata :: "pyval list option"
  other_keys :: "(string \<times> pyval) list"

text \<open>What \<open>process\<close> and its stages write to the log.\<close>

datatype log_record =
    LogIteration int int
  | LogQueryAnalysis pyval bool
  | LogUsingRewritten pyval
  | LogRetrievedMcp nat
  | LogAnswerValidation pyval pyval pyval
  | LogRewriting pyval
  | LogError string exn

text \<open>The observable effects of a run, in order: calls to collaborators and log records.\<close>

datatype event =
    EvLLM pyval "message list"
  | EvListToolSpecs string
  | EvCallTool string pyval pyval
  | EvHybridSearch "string list" pyval int int real
  | EvQueryCollection "string list" pyval int
  | EvRerank "(pyval \<times> string) list"
  | EvLog log_record

text \<open>
  The state threaded through every call: the collaborators' own state \<open>world\<close>, of which
  nothing is assumed, and the \<open>trace\<close> of effects so far.
\<close>

record 'w state =
  world :: 'w
  trace :: "event list"

definition emit :: "event \<Rightarrow> 'w state \<Rightarrow> 'w state" where
  "emit ev st = st\<lparr>trace := trace st @ [ev]\<rparr>"

text \<open>
  The collaborators reached through \<open>self.request\<close> and the imports of
  \<^verbatim>\<open>open_webui.utils.misc\<close> and \<^verbatim>\<open>open_webui.retrieval.utils\<close>, none of which is part of
  the engine: each is a parameter that may raise and may change the world. \<open>json_loads\<close> is
  \<^verbatim>\<open>json.loads\<close>, which raises JSONDecodeError on a text that is not JSON and may raise
  other exceptions (ValueError on an integer literal beyond the digit limit). \<open>config_MODEL\<close> is
  \<^verbatim>\<open>config.MODEL if hasattr(config, "MODEL") else None\<close>.
\<close>

record 'w env =
  json_loads :: "string \<Rightarrow> exn + pyval"
  get_task_model_id :: "'w \<Rightarrow> exn + pyval"
  config_MODEL :: "'w \<Rightarrow> pyval"
  generate_chat_completion :: "pyval \<Rightarrow> message list \<Rightarrow> 'w \<Rightarrow> (exn + pyval) \<times> 'w"
  ENABLE_RAG_HYBRID_SEARCH :: "'w \<Rightarrow> exn + pyval"
  query_collection_with_hybrid_search ::
    "string list \<Rightarrow> pyval \<Rightarrow> int \<Rightarrow> int \<Rightarrow> real \<Rightarrow> 'w \<Rightarrow> (exn + source list) \<times> 'w"
  query_collection :: "string list \<Rightarrow> pyval \<Rightarrow> int \<Rightarrow> 'w \<Rightarrow> (exn + source list) \<times> 'w"

record 'w mcp_client =
  list_tool_specs :: "'w \<Rightarrow> (exn + pyval list) \<times> 'w"
  call_tool :: "pyval \<Rightarrow> pyval \<Rightarrow> 'w \<Rightarrow> (exn + pyval) \<times> 'w"

text \<open>
  The fields of \<open>AgenticRAGEngine\<close> that the code reads. \<open>user\<close> and
  \<open>embedding_function\<close> are only handed on to collaborators, which here know them already.
  \<open>mcp_clients\<close> is the dict in insertion order.
\<close>

record 'w engine =
  request :: "'w env"
  reranking_function :: "((pyval \<times> string) list \<Rightarrow> 'w \<Rightarrow> (exn + real list) \<times> 'w) option"
  mcp_clients :: "(string \<times> 'w mcp_client) list"
  max_iterations :: int

text \<open>A call to a collaborator: the call is recorded, the world is what the collaborator leaves.\<close>

definition external ::
  "event \<Rightarrow> ('w \<Rightarrow> (exn + 'a) \<times> 'w) \<Rightarrow> 'w state \<Rightarrow> (exn + 'a) \<times> 'w state" where
  "external ev f st =
     (case f (world st) of (r, w') \<Rightarrow> (r, \<lparr>world = w', trace = trace st @ [ev]\<rparr>))"

definition call_llm ::
  "'w engine \<Rightarrow> pyval \<Rightarrow> message list \<Rightarrow> 'w state \<Rightarrow> (exn + pyval) \<times> 'w state" where
  "call_llm self model_id messages st =
     external (EvLLM model_id messages)
       (generate_chat_completion (request self) model_id messages) st"

section \<open>Reranking\<close>

text \<open>
  \<^verbatim>\<open>sorted(xs, key=key, reverse=True)\<close> and \<^verbatim>\<open>xs.sort(key=key, reverse=True)\<close>: a stable sort
  in descending key order (elements with equal keys keep their order).
\<close>

definition sorted_desc :: "('a \<Rightarrow> real) \<Rightarrow> 'a list \<Rightarrow> 'a list" where
  "sorted_desc key xs = sort_key (\<lambda>x. - key x) xs"

text \<open>
  The inner loop \<^verbatim>\<open>for _ in result["document"]\<close>: one score per passage, read at the
  running index \<open>idx\<close>, and 0.0 once the scores are used up.
\<close>

fun doc_scores_of :: "real list \<Rightarrow> nat \<Rightarrow> 'a list \<Rightarrow> real list \<times> nat" where
  "doc_scores_of reranked_scores idx [] = ([], idx)"
| "doc_scores_of reranked_scores idx (d # ds) =
     (if idx < length reranked_scores
      then (case doc_scores_of reranked_scores (idx + 1) ds of
              (sc, idx') \<Rightarrow> (reranked_scores ! idx # sc, idx'))
      else (case doc_scores_of reranked_scores idx ds of
              (sc, idx') \<Rightarrow> (0 # sc, idx')))"

text \<open>\<^verbatim>\<open>result.get("metadata", [])\<close> and \<^verbatim>\<open>r.get("document", [])\<close>.\<close>

definition metadata_or_empty :: "source \<Rightarrow> pyval list" where
  "metadata_or_empty result = (case metadata result of None \<Rightarrow> [] | Some ms \<Rightarrow> ms)"

definition document_or_empty :: "source \<Rightarrow> string list" where
  "document_or_empty result = (case document result of None \<Rightarrow> [] | Some ds \<Rightarrow> ds)"

text \<open>The body of the loop over \<open>search_results\<close> for one result; \<open>zip\<close> stops at the shortest.\<close>

definition rerank_result :: "real list \<Rightarrow> nat \<Rightarrow> source \<Rightarrow> source \<times> nat" where
  "rerank_result reranked_scores idx result =
     (case document result of
        None \<Rightarrow> (result, idx)
      | Some docs \<Rightarrow>
          (case doc_scores_of reranked_scores idx docs of
             (doc_scores, idx') \<Rightarrow>
               if doc_scores \<noteq> [] then
                 let sorted_pairs =
                       sorted_desc (\<lambda>x. snd (snd x))
                         (zip docs (zip (metadata_or_empty result) doc_scores));
                     result1 = result\<lparr>document := Some (map fst sorted_pairs)\<rparr>
                 in (case metadata result of
                       None \<Rightarrow> (result1, idx')
                     | Some ms \<Rightarrow>
                         (result1\<lparr>metadata := Some (map (\<lambda>pair. fst (snd pair)) sorted_pairs)\<rparr>,
                          idx'))
               else (result, idx')))"

fun apply_scores :: "real list \<Rightarrow> nat \<Rightarrow> source list \<Rightarrow> source list" where
  "apply_scores reranked_scores idx [] = []"
| "apply_scores reranked_scores idx (result # rest) =
     (case rerank_result reranked_scores idx result of
        (result', idx') \<Rightarrow> result' # apply_scores reranked_scores idx' rest)"

text \<open>\<^verbatim>\<open>max(xs)\<close> raises ValueError on an empty list.\<close>

fun py_max :: "real list \<Rightarrow> exn + real" where
  "py_max [] = Inl (Exn ValueError ''max() arg is an empty sequence'')"
| "py_max (x # xs) = Inr (fold max xs x)"

text \<open>
  The key of the final \<^verbatim>\<open>search_results.sort\<close>: the maximum over the third components of
  \<^verbatim>\<open>zip(document, metadata, [0.0] * len(document))\<close>, or 0.0 for a result with no passage.
\<close>

definition result_sort_key :: "source \<Rightarrow> exn + real" where
  "result_sort_key r =
     (if document_or_empty r \<noteq> [] then
        py_max (map (\<lambda>s. snd (snd s))
          (sorted_desc (\<lambda>x. snd (snd x))
             (zip (document_or_empty r)
                (zip (metadata_or_empty r) (replicate (length (document_or_empty r)) 0)))))
      else Inr 0)"

fun mapE :: "('a \<Rightarrow> exn + 'b) \<Rightarrow> 'a list \<Rightarrow> exn + 'b list" where
  "mapE f [] = Inr []"
| "mapE f (x # xs) = bindE (f x) (\<lambda>y. bindE (mapE f xs) (\<lambda>ys. Inr (y # ys)))"

text \<open>
  \<^verbatim>\<open>search_results.sort(key=..., reverse=True)\<close>: the keys are computed first; a key that
  raises leaves the list as it was.
\<close>

definition sort_results :: "source list \<Rightarrow> exn + source list" where
  "sort_results results =
     bindE (mapE result_sort_key results) (\<lambda>keys.
       Inr (map snd (sorted_desc fst (zip keys results))))"

definition collect_sentences :: "source list \<Rightarrow> pyval \<Rightarrow> (pyval \<times> string) list" where
  "collect_sentences search_results query =
     concat (map (\<lambda>result. case document result of
                               None \<Rightarrow> []
                             | Some docs \<Rightarrow> map (\<lambda>doc_text. (query, doc_text)) docs)
                 search_results)"

text \<open>
  \<open>rerank_search_results\<close>. The results are dicts mutated in place, so an exception after
  the loop leaves the reordered passages in the returned list.
\<close>

definition rerank_search_results ::
  "'w engine \<Rightarrow> source list \<Rightarrow> pyval \<Rightarrow> 'w state \<Rightarrow> source list \<times> 'w state" where
  "rerank_search_results self search_results query st =
     (case reranking_function self of
        None \<Rightarrow> (search_results, st)
      | Some rf \<Rightarrow>
          if search_results = [] then (search_results, st)
          else
            let sentences = collect_sentences search_results query in
            if sentences = [] then (search_results, st)
            else
              (case external (EvRerank sentences) (rf sentences) st of
                 (Inl e, st') \<Rightarrow>
                   (search_results,
                    emit (EvLog (LogError ''Error reranking search results: '' e)) st')
               | (Inr reranked_scores, st') \<Rightarrow>
                   let results' = apply_scores reranked_scores 0 search_results in
                   (case sort_results results' of
                      Inl e \<Rightarrow>
                        (results',
                         emit (EvLog (LogError ''Error reranking search results: '' e)) st')
                    | Inr sorted_results \<Rightarrow> (sorted_results, st'))))"

section \<open>Decoding a structured object out of generated text\<close>

text \<open>
  The inner \<^verbatim>\<open>try\<close> of \<open>analyze_query\<close>, \<open>interact_with_mcp_servers\<close> and
  \<open>validate_answer\<close>: the span from the first \<^verbatim>\<open>{\<close> to the last \<^verbatim>\<open>}\<close>, decoded.
  \<open>Inr None\<close> is the fallback path: no opening brace, or a JSONDecodeError, the one class that
  \<^verbatim>\<open>except json.JSONDecodeError\<close> catches. Any other exception of \<^verbatim>\<open>json.loads\<close> leaves the
  inner \<^verbatim>\<open>try\<close> and reaches the handler of the stage. (\<open>bracket_end\<close> is \<^verbatim>\<open>rfind + 1\<close> and
  so is never -1; a text with no closing brace gives the empty span.)
\<close>

definition extract_json :: "(string \<Rightarrow> exn + pyval) \<Rightarrow> string \<Rightarrow> exn + pyval option" where
  "extract_json loads content =
     (let bracket_start = py_find content CHR ''{'';
          bracket_end = py_rfind content CHR ''}'' + 1
      in if bracket_start \<noteq> - 1 \<and> bracket_end \<noteq> - 1
         then (case loads (py_slice content bracket_start bracket_end) of
                 Inr result \<Rightarrow> Inr (Some result)
               | Inl (Exn JSONDecodeError m) \<Rightarrow> Inr None
               | Inl e \<Rightarrow> Inl e)
         else Inr None)"

section \<open>Messages\<close>

fun join_frags :: "frag list \<Rightarrow> frag list list \<Rightarrow> frag list" where
  "join_frags sep [] = []"
| "join_frags sep [x] = x"
| "join_frags sep (x # y # ys) = x @ sep @ join_frags sep (y # ys)"

text \<open>\<^verbatim>\<open>f"{msg.get('role', 'user').upper()}: {msg.get('content', '')}"\<close>\<close>

definition history_line :: "pyval \<Rightarrow> exn + frag list" where
  "history_line msg =
     bindE (py_get msg ''role'' (PStr ''user'')) (\<lambda>role.
     bindE (str_receiver ''upper'' role) (\<lambda>role_str.
     bindE (py_get msg ''content'' (PStr [])) (\<lambda>content.
     Inr [Lit (upper role_str), Lit '': '', Val content])))"

text \<open>
  The \<^verbatim>\<open>if chat_history:\<close> block of \<open>analyze_query\<close> (last 3 turns) and
  \<open>validate_answer\<close> (last 2). \<open>chat_history\<close> is a list; \<^verbatim>\<open>None\<close> is the empty list, which
  the code treats alike.
\<close>

definition with_recent_history :: "nat \<Rightarrow> pyval list \<Rightarrow> frag list \<Rightarrow> exn + frag list" where
  "with_recent_history n chat_history user_message =
     (if chat_history \<noteq> [] then
        bindE (mapE history_line (last_n n chat_history)) (\<lambda>lines.
          Inr ([Lit (''Recent conversation:'' @ nl)] @ join_frags [Lit nl] lines
               @ [Lit (nl @ nl)] @ user_message))
      else Inr user_message)"

section \<open>Query Analyzer\<close>

definition analysis_of_result :: "pyval \<Rightarrow> pyval \<Rightarrow> exn + QueryAnalysisResult" where
  "analysis_of_result result query =
     bindE (py_get result ''needs_additional_data'' (PBool True)) (\<lambda>needs.
     bindE (py_get result ''rewritten_query'' PNone) (\<lambda>rewritten.
     bindE (py_get result ''reasoning'' (PStr [])) (\<lambda>reason.
     bindE (py_get result ''confidence'' (PFloat 0.8)) (\<lambda>conf.
     Inr \<lparr>needs_additional_data = needs, rewritten_query = py_or rewritten query,
          qa_reasoning = reason, qa_confidence = conf\<rparr>))))"

text \<open>The \<^verbatim>\<open>try\<close> block of \<open>analyze_query\<close>.\<close>

definition analyze_query_try ::
  "'w engine \<Rightarrow> pyval \<Rightarrow> pyval list \<Rightarrow> 'w state \<Rightarrow> (exn + QueryAnalysisResult) \<times> 'w state" where
  "analyze_query_try self query chat_history st =
     (case get_task_model_id (request self) (world st) of
        Inl e \<Rightarrow> (Inl e, st)
      | Inr task_model_id \<Rightarrow>
          (case with_recent_history 3 chat_history [Lit ''Query: '', Val query] of
             Inl e \<Rightarrow> (Inl e, st)
           | Inr user_message \<Rightarrow>
               (case call_llm self task_model_id
                       [System QueryAnalysisPrompt, User user_message] st of
                  (Inl e, st') \<Rightarrow> (Inl e, st')
                | (Inr response, st') \<Rightarrow>
                    (bindE (response_content response) (\<lambda>content.
                     bindE (str_receiver ''find'' content) (\<lambda>text.
                     bindE (extract_json (json_loads (request self)) text) (\<lambda>decoded.
                       analysis_of_result
                         (case decoded of
                            Some result \<Rightarrow> result
                          | None \<Rightarrow> parse_analysis_from_text text)
                         query))),
                     st'))))"

definition analyze_query ::
  "'w engine \<Rightarrow> pyval \<Rightarrow> pyval list \<Rightarrow> 'w state \<Rightarrow> QueryAnalysisResult \<times> 'w state" where
  "analyze_query self query chat_history st =
     (case analyze_query_try self query chat_history st of
        (Inr analysis, st') \<Rightarrow> (analysis, st')
      | (Inl e, st') \<Rightarrow>
          (\<lparr>needs_additional_data = PBool True, rewritten_query = query,
            qa_reasoning = PStr (''Error during analysis: '' @ exn_str e),
            qa_confidence = PFloat 0.5\<rparr>,
           emit (EvLog (LogError ''Error analyzing query: '' e)) st'))"

section \<open>Answer Validator\<close>

definition validation_of_result :: "pyval \<Rightarrow> exn + AnswerValidationResult" where
  "validation_of_result result =
     bindE (py_get result ''is_correct'' (PBool True)) (\<lambda>correct.
     bindE (py_get result ''is_relevant'' (PBool True)) (\<lambda>relevant.
     bindE (py_get result ''reasoning'' (PStr [])) (\<lambda>reason.
     bindE (py_get result ''confidence'' (PFloat 0.8)) (\<lambda>conf.
     Inr (mk_AnswerValidationResult correct relevant reason conf)))))"

text \<open>The \<^verbatim>\<open>try\<close> block of \<open>validate_answer\<close>.\<close>

definition validate_answer_try ::
  "'w engine \<Rightarrow> pyval \<Rightarrow> pyval \<Rightarrow> pyval list \<Rightarrow> 'w state \<Rightarrow>
     (exn + AnswerValidationResult) \<times> 'w state" where
  "validate_answer_try self query answer chat_history st =
     (case get_task_model_id (request self) (world st) of
        Inl e \<Rightarrow> (Inl e, st)
      | Inr task_model_id \<Rightarrow>
          (case with_recent_history 2 chat_history
                  [Lit ''Query: '', Val query, Lit (nl @ nl @ ''Answer: ''), Val answer] of
             Inl e \<Rightarrow> (Inl e, st)
           | Inr user_message \<Rightarrow>
               (case call_llm self task_model_id
                       [System ValidationPrompt, User user_message] st of
                  (Inl e, st') \<Rightarrow> (Inl e, st')
                | (Inr response, st') \<Rightarrow>
                    (bindE (response_content response) (\<lambda>content.
                     bindE (str_receiver ''find'' content) (\<lambda>text.
                     bindE (extract_json (json_loads (request self)) text) (\<lambda>decoded.
                       validation_of_result
                         (case decoded of
                            Some result \<Rightarrow> result
                          | None \<Rightarrow> parse_validation_from_text text)))),
                     st'))))"

definition validate_answer ::
  "'w engine \<Rightarrow> pyval \<Rightarrow> pyval \<Rightarrow> pyval list \<Rightarrow> 'w state \<Rightarrow>
     AnswerValidationResult \<times> 'w state" where
  "validate_answer self query answer chat_history st =
     (case validate_answer_try self query answer chat_history st of
        (Inr validation, st') \<Rightarrow> (validation, st')
      | (Inl e, st') \<Rightarrow>
          (mk_AnswerValidationResult (PBool True) (PBool True)
             (PStr (''Error during validation: '' @ exn_str e)) (PFloat 0.5),
           emit (EvLog (LogError ''Error validating answer: '' e)) st'))"

section \<open>Query rewriting\<close>

text \<open>The \<^verbatim>\<open>try\<close> block of \<open>rewrite_query\<close>.\<close>

definition rewrite_query_try ::
  "'w engine \<Rightarrow> pyval \<Rightarrow> pyval \<Rightarrow> AnswerValidationResult \<Rightarrow> 'w state \<Rightarrow>
     (exn + pyval) \<times> 'w state" where
  "rewrite_query_try self original_query answer validation_result st =
     (case get_task_model_id (request self) (world st) of
        Inl e \<Rightarrow> (Inl e, st)
      | Inr task_model_id \<Rightarrow>
          (case call_llm self task_model_id
                  [System RewritePrompt,
                   User [Lit ''Original query: '', Val original_query,
                         Lit (nl @ ''Generated answer: ''), Val answer,
                         Lit (nl @ ''Validation: ''), Val (reasoning validation_result),
                         Lit (nl @ nl @ ''Rewrite the query to get a better answer.'')]] st of
             (Inl e, st') \<Rightarrow> (Inl e, st')
           | (Inr response, st') \<Rightarrow>
               (bindE (response_content response) (\<lambda>rewritten.
                  if truthy rewritten
                  then bindE (str_receiver ''strip'' rewritten) (\<lambda>text. Inr (PStr (strip text)))
                  else Inr original_query),
                st')))"

definition rewrite_query ::
  "'w engine \<Rightarrow> pyval \<Rightarrow> pyval \<Rightarrow> AnswerValidationResult \<Rightarrow> pyval list \<Rightarrow> 'w state \<Rightarrow>
     pyval \<times> 'w state" where
  "rewrite_query self original_query answer validation_result chat_history st =
     (case rewrite_query_try self original_query answer validation_result st of
        (Inr rewritten, st') \<Rightarrow> (rewritten, st')
      | (Inl e, st') \<Rightarrow>
          (original_query, emit (EvLog (LogError ''Error rewriting query: '' e)) st'))"

section \<open>Tool Orchestrator\<close>

text \<open>The dict appended to \<open>available_tools\<close> for one tool spec.\<close>

definition tool_entry :: "string \<Rightarrow> pyval \<Rightarrow> exn + pyval" where
  "tool_entry server_id tool_spec =
     bindE (py_get tool_spec ''name'' PNone) (\<lambda>name.
     bindE (py_get tool_spec ''description'' (PStr [])) (\<lambda>description.
     bindE (py_get tool_spec ''parameters'' (PDict [])) (\<lambda>parameters.
     Inr (PDict [(''server_id'', PStr server_id), (''tool_name'', name),
                 (''description'', description), (''parameters'', parameters)]))))"

text \<open>
  \<^verbatim>\<open>for tool_spec in tool_specs: available_tools.append(...)\<close>: an exception ends the loop
  and keeps what was appended before it.
\<close>

fun append_tool_specs :: "string \<Rightarrow> pyval list \<Rightarrow> pyval list \<Rightarrow> exn option \<times> pyval list" where
  "append_tool_specs server_id [] available_tools = (None, available_tools)"
| "append_tool_specs server_id (tool_spec # rest) available_tools =
     (case tool_entry server_id tool_spec of
        Inl e \<Rightarrow> (Some e, available_tools)
      | Inr entry \<Rightarrow> append_tool_specs server_id rest (available_tools @ [entry]))"

text \<open>
  \<^verbatim>\<open>for server_id, client in mcp_clients.items()\<close>: a provider whose listing raises is
  logged and skipped.
\<close>

fun collect_tools ::
  "(string \<times> 'w mcp_client) list \<Rightarrow> pyval list \<Rightarrow> 'w state \<Rightarrow> pyval list \<times> 'w state" where
  "collect_tools [] available_tools st = (available_tools, st)"
| "collect_tools ((server_id, client) # rest) available_tools st =
     (case external (EvListToolSpecs server_id) (list_tool_specs client) st of
        (Inl e, st') \<Rightarrow>
          collect_tools rest available_tools
            (emit (EvLog (LogError (''Error listing tools from MCP server '' @ server_id) e)) st')
      | (Inr tool_specs, st') \<Rightarrow>
          (case append_tool_specs server_id tool_specs available_tools of
             (None, tools') \<Rightarrow> collect_tools rest tools' st'
           | (Some e, tools') \<Rightarrow>
               collect_tools rest tools'
                 (emit (EvLog (LogError (''Error listing tools from MCP server '' @ server_id) e))
                    st')))"

text \<open>
  \<^verbatim>\<open>server_id in mcp_clients\<close> and \<^verbatim>\<open>mcp_clients[server_id]\<close>: a list or a dict is not
  hashable (TypeError); the keys are strings, so only a string can be found.
\<close>

fun lookup_client ::
  "(string \<times> 'w mcp_client) list \<Rightarrow> pyval \<Rightarrow> exn + (string \<times> 'w mcp_client) option" where
  "lookup_client clients (PStr s) =
     Inr (case map_of clients s of None \<Rightarrow> None | Some client \<Rightarrow> Some (s, client))"
| "lookup_client clients (PList xs) =
     Inl (Exn TypeError (''unhashable type: '' @ squote @ ''list'' @ squote))"
| "lookup_client clients (PDict kvs) =
     Inl (Exn TypeError (''unhashable type: '' @ squote @ ''dict'' @ squote))"
| "lookup_client clients v = Inr None"

definition tool_call_fields :: "pyval \<Rightarrow> exn + pyval \<times> pyval \<times> pyval" where
  "tool_call_fields tool_info =
     bindE (py_get tool_info ''server_id'' PNone) (\<lambda>server_id.
     bindE (py_get tool_info ''tool_name'' PNone) (\<lambda>tool_name.
     bindE (py_get tool_info ''arguments'' (PDict [])) (\<lambda>arguments.
     Inr (server_id, tool_name, arguments))))"

text \<open>
  \<^verbatim>\<open>for tool_info in tools_to_use\<close>: a failing tool call is logged and skipped; an exception
  outside the inner \<^verbatim>\<open>try\<close> ends the loop (it reaches the outer handler) with the results
  so far.
\<close>

fun execute_tools ::
  "(string \<times> 'w mcp_client) list \<Rightarrow> pyval \<Rightarrow> pyval list \<Rightarrow> pyval list \<Rightarrow> 'w state \<Rightarrow>
     (exn option \<times> pyval list) \<times> 'w state" where
  "execute_tools clients query [] results st = ((None, results), st)"
| "execute_tools clients query (tool_info # rest) results st =
     (case tool_call_fields tool_info of
        Inl e \<Rightarrow> ((Some e, results), st)
      | Inr (server_id, tool_name, arguments) \<Rightarrow>
          (case lookup_client clients server_id of
             Inl e \<Rightarrow> ((Some e, results), st)
           | Inr None \<Rightarrow> execute_tools clients query rest results st
           | Inr (Some (sid, client)) \<Rightarrow>
               (case external (EvCallTool sid tool_name arguments)
                       (call_tool client tool_name arguments) st of
                  (Inl e, st') \<Rightarrow>
                    execute_tools clients query rest results
                      (emit (EvLog (LogError (''Error calling MCP tool '' @ sid) e)) st')
                | (Inr result, st') \<Rightarrow>
                    execute_tools clients query rest
                      (results @ [PDict [(''server_id'', server_id), (''tool_name'', tool_name),
                                         (''result'', result), (''query'', query)]])
                      st')))"

text \<open>
  The outer \<^verbatim>\<open>try\<close> block of \<open>interact_with_mcp_servers\<close>: the results, and the exception
  that ended it, if any.
\<close>

definition interact_try ::
  "'w engine \<Rightarrow> pyval \<Rightarrow> (string \<times> 'w mcp_client) list \<Rightarrow> 'w state \<Rightarrow>
     (exn option \<times> pyval list) \<times> 'w state" where
  "interact_try self query clients st =
     (case get_task_model_id (request self) (world st) of
        Inl e \<Rightarrow> ((Some e, []), st)
      | Inr task_model_id \<Rightarrow>
          (case collect_tools clients [] st of
             (available_tools, st1) \<Rightarrow>
               if available_tools = [] then ((None, []), st1)
               else
                 (case call_llm self task_model_id
                         [System (ToolSelectionPrompt (PList available_tools)),
                          User [Lit ''Query: '', Val query]] st1 of
                    (Inl e, st2) \<Rightarrow> ((Some e, []), st2)
                  | (Inr response, st2) \<Rightarrow>
                      (case bindE (response_content response) (str_receiver ''find'') of
                         Inl e \<Rightarrow> ((Some e, []), st2)
                       | Inr text \<Rightarrow>
                           (case extract_json (json_loads (request self)) text of
                              Inl e \<Rightarrow> ((Some e, []), st2)
                            | Inr None \<Rightarrow> ((None, []), st2)
                            | Inr (Some tool_selection) \<Rightarrow>
                                (case bindE (py_get tool_selection ''tools_to_use'' (PList []))
                                        py_iter of
                                   Inl e \<Rightarrow> ((Some e, []), st2)
                                 | Inr tools_to_use \<Rightarrow>
                                     execute_tools clients query tools_to_use [] st2))))))"

definition interact_with_mcp_servers ::
  "'w engine \<Rightarrow> pyval \<Rightarrow> (string \<times> 'w mcp_client) list \<Rightarrow> 'w state \<Rightarrow>
     pyval list \<times> 'w state" where
  "interact_with_mcp_servers self query clients st =
     (if clients = [] then ([], st)
      else
        (case interact_try self query clients st of
           ((None, results), st') \<Rightarrow> (results, st')
         | ((Some e, results), st') \<Rightarrow>
             (results, emit (EvLog (LogError ''Error interacting with MCP servers: '' e)) st')))"

section \<open>Answer Generator\<close>

text \<open>The lines that one tool result adds to \<open>mcp_context\<close>.\<close>

fun item_lines :: "pyval \<Rightarrow> frag list" where
  "item_lines (PDict kvs) =
     (case map_of kvs ''text'' of
        Some t \<Rightarrow> [Lit ''- '', Val t, Lit nl]
      | None \<Rightarrow> [])"
| "item_lines (PStr s) = [Lit ''- '', Val (PStr s), Lit nl]"
| "item_lines v = []"

fun result_lines :: "pyval \<Rightarrow> frag list" where
  "result_lines (PList items) = concat (map item_lines items)"
| "result_lines (PDict kvs) = [Lit ''- '', Dumps (PDict kvs), Lit nl]"
| "result_lines (PStr s) = [Lit ''- '', Val (PStr s), Lit nl]"
| "result_lines v = []"

definition mcp_context :: "pyval list \<Rightarrow> exn + frag list" where
  "mcp_context mcp_results =
     bindE (mapE (\<lambda>mcp_result. py_get mcp_result ''result'' (PDict [])) mcp_results)
       (\<lambda>datas. Inr ([Lit (nl @ nl @ ''Additional information from external sources:'' @ nl)]
                     @ concat (map result_lines datas)))"

definition full_context :: "string \<Rightarrow> pyval list \<Rightarrow> exn + frag list" where
  "full_context context mcp_results =
     (let context_parts = (if context \<noteq> [] then [[Lit context]] else [])
      in if mcp_results \<noteq> []
         then bindE (mcp_context mcp_results) (\<lambda>mc.
                Inr (join_frags [Lit nl] (context_parts @ [mc])))
         else Inr (join_frags [Lit nl] context_parts))"

text \<open>The \<^verbatim>\<open>try\<close> block of \<open>generate_answer\<close>.\<close>

definition generate_answer_try ::
  "'w engine \<Rightarrow> pyval \<Rightarrow> string \<Rightarrow> pyval list \<Rightarrow> pyval list \<Rightarrow> 'w state \<Rightarrow>
     (exn + pyval) \<times> 'w state" where
  "generate_answer_try self query context chat_history mcp_results st =
     (case full_context context mcp_results of
        Inl e \<Rightarrow> (Inl e, st)
      | Inr fc \<Rightarrow>
          (case (if truthy (config_MODEL (request self) (world st))
                 then Inr (config_MODEL (request self) (world st))
                 else get_task_model_id (request self) (world st)) of
             Inl e \<Rightarrow> (Inl e, st)
           | Inr model_id \<Rightarrow>
               (case call_llm self model_id
                       ([System AnswerPrompt] @ map Raw (last_n 5 chat_history)
                        @ [User ([Lit (''Context:'' @ nl)] @ fc
                                 @ [Lit (nl @ nl @ ''Question: ''), Val query])]) st of
                  (Inl e, st') \<Rightarrow> (Inl e, st')
                | (Inr response, st') \<Rightarrow> (response_content response, st'))))"

definition generate_answer ::
  "'w engine \<Rightarrow> pyval \<Rightarrow> string \<Rightarrow> pyval list \<Rightarrow> pyval list \<Rightarrow> 'w state \<Rightarrow>
     pyval \<times> 'w state" where
  "generate_answer self query context chat_history mcp_results st =
     (case generate_answer_try self query context chat_history mcp_results st of
        (Inr answer, st') \<Rightarrow> (answer, st')
      | (Inl e, st') \<Rightarrow>
          (PStr (''Error generating answer: '' @ exn_str e),
           emit (EvLog (LogError ''Error generating answer: '' e)) st'))"

section \<open>Iteration Controller\<close>

text \<open>
  The retrieval step of \<open>process\<close>: the hybrid or the vector-only query, chosen by the
  configuration flag; any exception (of the imports, the flag or the query) is logged and
  leaves no sources.
\<close>

definition retrieve ::
  "'w engine \<Rightarrow> string list \<Rightarrow> pyval \<Rightarrow> int \<Rightarrow> int \<Rightarrow> real \<Rightarrow> 'w state \<Rightarrow>
     source list \<times> 'w state" where
  "retrieve self collection_names current_query k k_reranker r st =
     (case ENABLE_RAG_HYBRID_SEARCH (request self) (world st) of
        Inl e \<Rightarrow> ([], emit (EvLog (LogError ''Error querying collections: '' e)) st)
      | Inr flag \<Rightarrow>
          (case (if truthy flag
                 then external (EvHybridSearch collection_names current_query k k_reranker r)
                        (query_collection_with_hybrid_search (request self)
                           collection_names current_query k k_reranker r) st
                 else external (EvQueryCollection collection_names current_query k)
                        (query_collection (request self) collection_names current_query k) st) of
             (Inl e, st') \<Rightarrow>
               ([], emit (EvLog (LogError ''Error querying collections: '' e)) st')
           | (Inr found, st') \<Rightarrow> (found, st')))"

fun join_str :: "string \<Rightarrow> string list \<Rightarrow> string" where
  "join_str sep [] = []"
| "join_str sep [x] = x"
| "join_str sep (x # y # ys) = x @ sep @ join_str sep (y # ys)"

text \<open>The context: at most two passages of each of the first \<open>k_reranker\<close> sources.\<close>

definition build_context :: "source list \<Rightarrow> int \<Rightarrow> string" where
  "build_context found k_reranker =
     (if found \<noteq> [] then
        join_str (nl @ nl)
          (concat (map (\<lambda>source. case document source of
                                    None \<Rightarrow> []
                                  | Some docs \<Rightarrow> py_slice_to docs 2)
                       (py_slice_to found k_reranker)))
      else [])"

text \<open>What one pass of the loop body leaves in the local variables (the spec's AttemptOutcome).\<close>

record attempt_outcome =
  att_query :: pyval
  att_mcp_results :: "pyval list"
  att_sources :: "source list"
  att_answer :: pyval
  att_validation :: AnswerValidationResult

text \<open>
  The loop body of \<open>process\<close> from the first log record to the one after validation;
  \<open>iteration\<close> is already incremented.
\<close>

definition attempt ::
  "'w engine \<Rightarrow> pyval \<Rightarrow> string list \<Rightarrow> pyval list \<Rightarrow> int \<Rightarrow> int \<Rightarrow> real \<Rightarrow> int \<Rightarrow> pyval \<Rightarrow>
     'w state \<Rightarrow> attempt_outcome \<times> 'w state" where
  "attempt self query collection_names chat_history k k_reranker r iteration current_query st =
     (case analyze_query self current_query chat_history
             (emit (EvLog (LogIteration iteration (max_iterations self))) st) of
        (analysis, st1) \<Rightarrow>
          let st2 = emit (EvLog (LogQueryAnalysis (needs_additional_data analysis)
                                   (\<not> py_eq (rewritten_query analysis) query))) st1;
              use_rewritten = (truthy (rewritten_query analysis)
                               \<and> \<not> py_eq (rewritten_query analysis) current_query);
              current_query' = (if use_rewritten then rewritten_query analysis
                                else current_query);
              st3 = (if use_rewritten then emit (EvLog (LogUsingRewritten current_query')) st2
                     else st2)
          in
          (case (if truthy (needs_additional_data analysis) \<and> mcp_clients self \<noteq> []
                 then (case interact_with_mcp_servers self current_query' (mcp_clients self) st3 of
                         (results, st') \<Rightarrow>
                           (results, emit (EvLog (LogRetrievedMcp (length results))) st'))
                 else ([], st3)) of
             (mcp, st4) \<Rightarrow>
               (case (if truthy (needs_additional_data analysis) \<and> collection_names \<noteq> []
                      then retrieve self collection_names current_query' k k_reranker r st4
                      else ([], st4)) of
                  (found, st5) \<Rightarrow>
                    (case (if found \<noteq> [] \<and> reranking_function self \<noteq> None
                           then rerank_search_results self found current_query' st5
                           else (found, st5)) of
                       (ranked, st6) \<Rightarrow>
                         (case generate_answer self current_query'
                                 (build_context ranked k_reranker) chat_history mcp st6 of
                            (generated, st7) \<Rightarrow>
                              (case validate_answer self current_query' generated
                                      chat_history st7 of
                                 (validation, st8) \<Rightarrow>
                                   (\<lparr>att_query = current_query', att_mcp_results = mcp,
                                     att_sources = ranked, att_answer = generated,
                                     att_validation = validation\<rparr>,
                                    emit (EvLog (LogAnswerValidation (is_correct validation)
                                            (is_relevant validation) (is_valid validation)))
                                      st8)))))))"

text \<open>
  The local variables of \<open>process\<close>. \<open>mcp_results_local\<close> is \<open>None\<close> while the name is
  unbound (\<^verbatim>\<open>'mcp_results' in locals()\<close> is false).
\<close>

record locals =
  current_query :: pyval
  iteration :: int
  best_answer :: pyval
  best_sources :: "source list"
  mcp_results_local :: "pyval list option"

text \<open>The \<^verbatim>\<open>while iteration < self.max_iterations\<close> loop.\<close>

function process_loop ::
  "'w engine \<Rightarrow> pyval \<Rightarrow> string list \<Rightarrow> pyval list \<Rightarrow> int \<Rightarrow> int \<Rightarrow> real \<Rightarrow> locals \<Rightarrow>
     'w state \<Rightarrow> locals \<times> 'w state" where
  "process_loop self query collection_names chat_history k k_reranker r vars st =
     (if iteration vars < max_iterations self then
        (case attempt self query collection_names chat_history k k_reranker r
                (iteration vars + 1) (current_query vars) st of
           (out, st1) \<Rightarrow>
             if truthy (is_valid (att_validation out)) then
               (\<lparr>current_query = att_query out, iteration = iteration vars + 1,
                 best_answer = att_answer out, best_sources = att_sources out,
                 mcp_results_local = Some (att_mcp_results out)\<rparr>, st1)
             else if iteration vars + 1 < max_iterations self then
               (case rewrite_query self query (att_answer out) (att_validation out)
                       chat_history st1 of
                  (rewritten, st2) \<Rightarrow>
                    process_loop self query collection_names chat_history k k_reranker r
                      \<lparr>current_query = rewritten, iteration = iteration vars + 1,
                       best_answer = best_answer vars, best_sources = best_sources vars,
                       mcp_results_local = Some (att_mcp_results out)\<rparr>
                      (emit (EvLog (LogRewriting rewritten)) st2))
             else
               process_loop self query collection_names chat_history k k_reranker r
                 \<lparr>current_query = att_query out, iteration = iteration vars + 1,
                  best_answer = att_answer out, best_sources = att_sources out,
                  mcp_results_local = Some (att_mcp_results out)\<rparr>
                 st1)
      else (vars, st))"
  by pat_completeness auto
termination
  by (relation "measure (\<lambda>(self, query, collection_names, chat_history, k, k_reranker, r, vars, st).
        nat (max_iterations self - iteration vars))") auto

text \<open>The dict that \<open>process\<close> returns.\<close>

record ProcessResult =
  answer :: pyval
  sources :: "source list"
  mcp_results :: "pyval list"
  iterations :: int
  final_query :: pyval

definition fallback_answer :: string where
  "fallback_answer = ''Unable to generate a satisfactory answer.''"

definition process ::
  "'w engine \<Rightarrow> pyval \<Rightarrow> string list \<Rightarrow> pyval list \<Rightarrow> int \<Rightarrow> int \<Rightarrow> real \<Rightarrow>
     'w state \<Rightarrow> ProcessResult \<times> 'w state" where
  "process self query collection_names chat_history k k_reranker r st =
     (case process_loop self query collection_names chat_history k k_reranker r
             \<lparr>current_query = query, iteration = 0, best_answer = PNone, best_sources = [],
              mcp_results_local = None\<rparr> st of
        (vars, st') \<Rightarrow>
          (\<lparr>answer = py_or (best_answer vars) (PStr fallback_answer),
            sources = best_sources vars,
            mcp_results = (case mcp_results_local vars of None \<Rightarrow> [] | Some m \<Rightarrow> m),
            iterations = iteration vars,
            final_query = current_query vars\<rparr>, st'))"

declare process_loop.simps [simp del]

section \<open>Concrete collaborators for the examples\<close>

text \<open>
  A scripted Language Model Gateway over a counter world. It says \<^verbatim>\<open>no\<close> to every
  validation request, answers the first answer request with \<^verbatim>\<open>draft\<close> and every later one
  with a response that has no \<^verbatim>\<open>choices\<close> key, and gives that same empty response to
  every other request.
\<close>

definition text_response :: "string \<Rightarrow> pyval" where
  "text_response s =
     PDict [(''choices'', PList [PDict [(''message'', PDict [(''content'', PStr s)])]])]"

fun scripted_llm :: "pyval \<Rightarrow> message list \<Rightarrow> nat \<Rightarrow> (exn + pyval) \<times> nat" where
  "scripted_llm model_id (System ValidationPrompt # rest) w = (Inr (text_response ''no''), w)"
| "scripted_llm model_id (System AnswerPrompt # rest) w =
     (if w = 0 then (Inr (text_response ''draft''), 1) else (Inr (PDict []), w))"
| "scripted_llm model_id messages w = (Inr (PDict []), w)"

definition scripted_env :: "nat env" where
  "scripted_env =
     \<lparr>json_loads = (\<lambda>s. Inl (Exn JSONDecodeError ''Expecting value'')),
      get_task_model_id = (\<lambda>w. Inr (PStr ''task-model'')),
      config_MODEL = (\<lambda>w. PNone),
      generate_chat_completion = scripted_llm,
      ENABLE_RAG_HYBRID_SEARCH = (\<lambda>w. Inr (PBool False)),
      query_collection_with_hybrid_search = (\<lambda>names q k kr r w. (Inr [], w)),
      query_collection = (\<lambda>names q k w. (Inr [], w))\<rparr>"

definition scripted_engine :: "int \<Rightarrow> nat engine" where
  "scripted_engine n =
     \<lparr>request = scripted_env, reranking_function = None, mcp_clients = [],
      max_iterations = n\<rparr>"

definition start_state :: "nat state" where
  "start_state = \<lparr>world = 0, trace = []\<rparr>"

section \<open>The alignment invariant of a search result\<close>

text \<open>
  The invariant of the spec's RetrievedSource: both sequences are there and of equal length.
  \<open>passages\<close> pairs each passage with the metadata entry at the same index.
\<close>

definition aligned :: "source \<Rightarrow> bool" where
  "aligned s =
     (case (document s, metadata s) of
        (Some docs, Some ms) \<Rightarrow> length docs = length ms
      | _ \<Rightarrow> False)"

definition passages :: "source \<Rightarrow> (string \<times> pyval) list" where
  "passages s = zip (document_or_empty s) (metadata_or_empty s)"

text \<open>A scorer that returns a fixed list of scores, and engines and sources for the examples.\<close>

definition fixed_scorer ::
  "real list \<Rightarrow> (pyval \<times> string) list \<Rightarrow> nat \<Rightarrow> (exn + real list) \<times> nat" where
  "fixed_scorer scores sentences w = (Inr scores, w)"

definition rerank_engine :: "real list \<Rightarrow> nat engine" where
  "rerank_engine scores =
     \<lparr>request = scripted_env, reranking_function = Some (fixed_scorer scores),
      mcp_clients = [], max_iterations = 3\<rparr>"



definition abc_source :: "pyval list option \<Rightarrow> source" where
  "abc_source md = \<lparr>document = Some [''a'', ''b'', ''c''], metadata = md, other_keys = []\<rparr>"

definition one_doc :: "string \<Rightarrow> source" where
  "one_doc d = \<lparr>document = Some [d], metadata = Some [PStr d], other_keys = []\<rparr>"

section \<open>Properties of the response reading and of the keyword fallback\<close>

text \<open>
  C7. The claim is that a response with no choice yields empty text and no fault. A response
  without the \<^verbatim>\<open>choices\<close> key does, through the default \<^verbatim>\<open>[{}]\<close>; a response whose
  \<^verbatim>\<open>choices\<close> list is empty raises IndexError at \<^verbatim>\<open>[0]\<close>.
\<close>

theorem response_content_empty_choices:
  "response_content (PDict []) = Inr (PStr [])
   \<and> response_content (PDict [(''choices'', PList [])])
       = Inl (Exn IndexError ''list index out of range'')"
  by (simp add: response_content_def)

lemma lower_char_N: "lower_char CHR ''n'' = CHR ''n''" "lower_char CHR ''N'' = CHR ''n''"
  by code_simp+

lemma lower_char_O: "lower_char CHR ''o'' = CHR ''o''" "lower_char CHR ''O'' = CHR ''o''"
  by code_simp+

lemma lower_char_n: "a \<in> {CHR ''n'', CHR ''N''} \<Longrightarrow> lower_char a = CHR ''n''"
  using lower_char_N by blast

lemma lower_char_o: "b \<in> {CHR ''o'', CHR ''O''} \<Longrightarrow> lower_char b = CHR ''o''"
  using lower_char_O by blast

lemma lower_contains_no:
  assumes "a \<in> {CHR ''n'', CHR ''N''}" and "b \<in> {CHR ''o'', CHR ''O''}"
  shows "sublist ''no'' (lower (ps @ [a, b] @ ss))"
proof -
  have "lower (ps @ [a, b] @ ss) = lower ps @ ''no'' @ lower ss"
    using lower_char_n [OF assms(1)] lower_char_o [OF assms(2)] by (simp add: lower_def)
  thus ?thesis
    unfolding sublist_def by blast
qed

text \<open>
  C9. A validator response text that reaches the keyword fallback and contains \<^verbatim>\<open>no\<close> in any
  letter case (an \<^verbatim>\<open>n\<close> or \<^verbatim>\<open>N\<close> directly followed by an \<^verbatim>\<open>o\<close> or \<^verbatim>\<open>O\<close>, anywhere in the
  text, also inside a longer word) is judged neither correct nor relevant:
  \<open>_parse_validation_from_text\<close> returns \<open>is_correct = False\<close> and \<open>is_relevant = False\<close>,
  and the \<open>AnswerValidationResult\<close> that \<open>validate_answer\<close> builds from it has
  \<open>is_valid = False\<close>.
\<close>

theorem keyword_fallback_no:
  assumes "text = ps @ [a, b] @ ss"
    and "a \<in> {CHR ''n'', CHR ''N''}"
    and "b \<in> {CHR ''o'', CHR ''O''}"
  shows "parse_validation_from_text text =
           PDict [(''is_correct'', PBool False), (''is_relevant'', PBool False),
                  (''reasoning'', PStr text), (''confidence'', PFloat 0.6)]
         \<and> (\<exists>v. validation_of_result (parse_validation_from_text text) = Inr v
                \<and> is_correct v = PBool False \<and> is_relevant v = PBool False
                \<and> is_valid v = PBool False \<and> \<not> truthy (is_valid v))"
proof -
  have "sublist ''no'' (lower text)"
    unfolding assms(1) by (rule lower_contains_no [OF assms(2) assms(3)])
  thus ?thesis
    by (simp add: parse_validation_from_text_def any_word_in_def validation_of_result_def
        mk_AnswerValidationResult_def py_and_def)
qed

theorem keyword_fallback_no_witness:
  "''UNKNOWN'' = ''UNK'' @ [CHR ''N'', CHR ''O''] @ ''WN''
   \<and> parse_validation_from_text ''UNKNOWN'' =
           PDict [(''is_correct'', PBool False), (''is_relevant'', PBool False),
                  (''reasoning'', PStr ''UNKNOWN''), (''confidence'', PFloat 0.6)]
   \<and> (\<exists>v. validation_of_result (parse_validation_from_text ''UNKNOWN'') = Inr v
                \<and> is_correct v = PBool False \<and> is_relevant v = PBool False
                \<and> is_valid v = PBool False \<and> \<not> truthy (is_valid v))"
proof -
  have h: "''UNKNOWN'' = ''UNK'' @ [CHR ''N'', CHR ''O''] @ ''WN''"
    by simp
  have a: "CHR ''N'' \<in> {CHR ''n'', CHR ''N''}" and b: "CHR ''O'' \<in> {CHR ''o'', CHR ''O''}"
    by simp_all
  from keyword_fallback_no [OF h a b] h show ?thesis
    by blast
qed

section \<open>Properties of the iteration controller\<close>

text \<open>
  C10. An engine constructed with \<open>max_iterations \<le> 0\<close> makes no attempt and no call to any
  collaborator (the state, world and trace, is returned as it was), and returns
  \<open>iterations = 0\<close>, the static fallback answer, no sources, no tool results and the
  original query as \<open>final_query\<close>.
\<close>

theorem process_nonpositive_max_iterations:
  assumes "max_iterations self \<le> 0"
  shows "process self query collection_names chat_history k k_reranker r st =
           (\<lparr>answer = PStr ''Unable to generate a satisfactory answer.'', sources = [],
             mcp_results = [], iterations = 0, final_query = query\<rparr>, st)"
  using assms
  by (simp add: process_def process_loop.simps py_or_def fallback_answer_def)

theorem process_nonpositive_max_iterations_witness:
  "max_iterations (scripted_engine (- 1)) \<le> 0
   \<and> process (scripted_engine (- 1)) (PStr ''q'') [''docs''] [] 5 3 0.7 start_state =
       (\<lparr>answer = PStr ''Unable to generate a satisfactory answer.'', sources = [],
         mcp_results = [], iterations = 0, final_query = PStr ''q''\<rparr>, start_state)"
proof -
  have h: "max_iterations (scripted_engine (- 1)) \<le> 0"
    by (simp add: scripted_engine_def)
  show ?thesis
    using h process_nonpositive_max_iterations [OF h] by blast
qed

section \<open>Properties of the reranker\<close>

lemma doc_scores_of_length':
  "doc_scores_of scores idx docs = (sc, idx') \<Longrightarrow> length sc = length docs"
  by (induction docs arbitrary: idx sc idx') (auto split: prod.splits if_splits)

lemma doc_scores_of_length: "length (fst (doc_scores_of scores idx docs)) = length docs"
  using doc_scores_of_length' [of scores idx docs] by (cases "doc_scores_of scores idx docs") simp



lemma mset_sorted_desc: "mset (sorted_desc key xs) = mset xs"
  by (simp add: sorted_desc_def)

lemma length_sorted_desc: "length (sorted_desc key xs) = length xs"
  by (simp add: sorted_desc_def)

lemma set_sorted_desc: "set (sorted_desc key xs) = set xs"
  by (simp add: sorted_desc_def)

lemma sorted_desc_const:
  assumes "\<And>x. x \<in> set xs \<Longrightarrow> key x = c"
  shows "sorted_desc key xs = xs"
proof -
  have "map (\<lambda>x. - key x) xs = replicate (length xs) (- c)"
    using assms by (induction xs) auto
  then have "sorted (map (\<lambda>x. - key x) xs)"
    by (simp add: sorted_replicate)
  then show ?thesis
    unfolding sorted_desc_def by (rule sort_key_id_if_sorted)
qed

lemma py_max_zeros:
  assumes "xs \<noteq> []" and "set xs \<subseteq> {0}"
  shows "py_max xs = Inr 0"
proof (cases xs)
  case Nil
  with assms show ?thesis by simp
next
  case (Cons y ys)
  with assms have y: "y = 0" and ys: "set ys \<subseteq> {0}" by auto
  have "fold max ys (0::real) = 0" using ys by (induction ys) auto
  with Cons y show ?thesis by simp
qed

lemma result_sort_key_zero:
  assumes "document_or_empty r = [] \<or> metadata_or_empty r \<noteq> []"
  shows "result_sort_key r = Inr 0"
proof (cases "document_or_empty r = []")
  case True
  then show ?thesis by (simp add: result_sort_key_def)
next
  case False
  with assms have ms: "metadata_or_empty r \<noteq> []" by simp
  let ?z = "zip (document_or_empty r)
              (zip (metadata_or_empty r) (replicate (length (document_or_empty r)) (0::real)))"
  let ?xs = "map (\<lambda>s. snd (snd s)) (sorted_desc (\<lambda>x. snd (snd x)) ?z)"
  have "length ?z = min (length (document_or_empty r)) (length (metadata_or_empty r))"
    by simp
  moreover have "length (document_or_empty r) \<noteq> 0" and "length (metadata_or_empty r) \<noteq> 0"
    using False ms by simp_all
  ultimately have "length ?z \<noteq> 0" by linarith
  moreover have "length ?xs = length ?z" by (simp add: length_sorted_desc)
  ultimately have ne: "?xs \<noteq> []" by (metis length_0_conv)
  have "set ?xs \<subseteq> {0}"
    by (auto simp: set_sorted_desc dest!: set_zip_rightD)
  from py_max_zeros [OF ne this] False show ?thesis
    by (simp add: result_sort_key_def)
qed

lemma rerank_result_no_document:
  "document r = None \<Longrightarrow> rerank_result scores idx r = (r, idx)"
  by (simp add: rerank_result_def)

lemma rerank_result_empty_document:
  "document r = Some [] \<Longrightarrow> rerank_result scores idx r = (r, idx)"
  by (simp add: rerank_result_def)

lemma rerank_result_passages:
  assumes "document r = Some docs" and "docs \<noteq> []"
  shows "fst (rerank_result scores idx r) =
           (let sorted_pairs =
                  sorted_desc (\<lambda>x. snd (snd x))
                    (zip docs (zip (metadata_or_empty r) (fst (doc_scores_of scores idx docs))))
            in case metadata r of
                 None \<Rightarrow> r\<lparr>document := Some (map fst sorted_pairs)\<rparr>
               | Some ms \<Rightarrow> r\<lparr>document := Some (map fst sorted_pairs),
                              metadata := Some (map (\<lambda>pair. fst (snd pair)) sorted_pairs)\<rparr>)"
proof -
  obtain sc j where sc: "doc_scores_of scores idx docs = (sc, j)"
    by (cases "doc_scores_of scores idx docs")
  have "length sc = length docs" using doc_scores_of_length' [OF sc] .
  with assms have "sc \<noteq> []" by auto
  with assms sc show ?thesis
    by (simp add: rerank_result_def Let_def split: option.splits)
qed

lemma rerank_result_sortable:
  "document_or_empty (fst (rerank_result scores idx r)) = []
   \<or> metadata_or_empty (fst (rerank_result scores idx r)) \<noteq> []"
proof (cases "document r")
  case None
  then show ?thesis by (simp add: rerank_result_no_document document_or_empty_def)
next
  case (Some docs)
  show ?thesis
  proof (cases "docs = []")
    case True
    with Some show ?thesis by (simp add: rerank_result_empty_document document_or_empty_def)
  next
    case False
    let ?sp = "sorted_desc (\<lambda>x. snd (snd x))
                 (zip docs (zip (metadata_or_empty r) (fst (doc_scores_of scores idx docs))))"
    show ?thesis
    proof (cases "metadata r")
      case None
      then have "?sp = []" by (simp add: metadata_or_empty_def sorted_desc_def)
      with None Some False show ?thesis
        by (simp add: rerank_result_passages [OF Some False] document_or_empty_def Let_def)
    next
      case (Some ms)
      from Some \<open>document r = Some docs\<close> False
      have "document_or_empty (fst (rerank_result scores idx r)) = map fst ?sp"
        and "metadata_or_empty (fst (rerank_result scores idx r)) = map (\<lambda>pair. fst (snd pair)) ?sp"
        by (simp_all add: rerank_result_passages [OF \<open>document r = Some docs\<close> False]
            document_or_empty_def metadata_or_empty_def Let_def)
      then show ?thesis by simp
    qed
  qed
qed


lemma mapE_all_zero:
  "(\<And>r. r \<in> set rs \<Longrightarrow> f r = Inr (0::real)) \<Longrightarrow> mapE f rs = Inr (replicate (length rs) 0)"
  by (induction rs) auto

lemma sort_results_id:
  assumes "\<And>r. r \<in> set rs \<Longrightarrow> result_sort_key r = Inr 0"
  shows "sort_results rs = Inr rs"
proof -
  have keys: "mapE result_sort_key rs = Inr (replicate (length rs) 0)"
    using assms by (rule mapE_all_zero)
  have "sorted_desc fst (zip (replicate (length rs) (0::real)) rs)
          = zip (replicate (length rs) 0) rs"
    by (rule sorted_desc_const [where c = 0]) (auto dest: set_zip_leftD)
  then show ?thesis
    by (simp add: sort_results_def keys)
qed

lemma apply_scores_sortable:
  "r' \<in> set (apply_scores scores idx rs) \<Longrightarrow>
     document_or_empty r' = [] \<or> metadata_or_empty r' \<noteq> []"
proof (induction rs arbitrary: idx)
  case Nil
  then show ?case by simp
next
  case (Cons r rs)
  obtain r1 j where r1: "rerank_result scores idx r = (r1, j)"
    by (cases "rerank_result scores idx r")
  with Cons.prems have "r' = r1 \<or> r' \<in> set (apply_scores scores j rs)" by simp
  moreover have "r1 = fst (rerank_result scores idx r)" using r1 by simp
  ultimately show ?case using rerank_result_sortable [of scores idx r] Cons.IH by blast
qed

lemma sort_results_apply_scores:
  "sort_results (apply_scores scores idx rs) = Inr (apply_scores scores idx rs)"
  by (rule sort_results_id) (rule result_sort_key_zero, erule apply_scores_sortable)

lemma length_apply_scores: "length (apply_scores scores idx rs) = length rs"
  by (induction rs arbitrary: idx) (auto split: prod.splits)

lemma apply_scores_nth:
  "i < length rs \<Longrightarrow>
     \<exists>j. apply_scores scores idx rs ! i = fst (rerank_result scores j (rs ! i))"
proof (induction rs arbitrary: idx i)
  case Nil
  then show ?case by simp
next
  case (Cons r rs)
  obtain r1 j where r1: "rerank_result scores idx r = (r1, j)"
    by (cases "rerank_result scores idx r")
  show ?case
  proof (cases i)
    case 0
    with r1 show ?thesis by (auto intro: exI [of _ idx])
  next
    case (Suc n)
    with Cons.prems have "n < length rs" by simp
    from Cons.IH [OF this, of j] Suc r1 show ?thesis by simp
  qed
qed

lemma rerank_search_results_cases:
  assumes "rerank_search_results self search_results query st = (out, st')"
  shows "out = search_results \<or> (\<exists>scores. out = apply_scores scores 0 search_results)"
  using assms
  by (auto simp: rerank_search_results_def Let_def sort_results_apply_scores
      split: option.splits if_splits prod.splits sum.splits)

lemma zip3_project:
  "length xs = length ys \<Longrightarrow> length ys = length zs \<Longrightarrow>
     map (\<lambda>p. (fst p, fst (snd p))) (zip xs (zip ys zs)) = zip xs ys"
  by (induction xs ys zs rule: list_induct3) auto

lemma zip_map_same: "zip (map f xs) (map g xs) = map (\<lambda>x. (f x, g x)) xs"
  by (induction xs) auto

lemma rerank_result_aligned:
  assumes "aligned r"
  shows "aligned (fst (rerank_result scores idx r))
         \<and> mset (passages (fst (rerank_result scores idx r))) = mset (passages r)"
proof -
  from assms obtain docs ms where d: "document r = Some docs" and m: "metadata r = Some ms"
    and len: "length docs = length ms"
    by (auto simp: aligned_def split: option.splits)
  show ?thesis
  proof (cases "docs = []")
    case True
    with d have "rerank_result scores idx r = (r, idx)"
      by (simp add: rerank_result_empty_document)
    with assms show ?thesis by simp
  next
    case False
    let ?sc = "fst (doc_scores_of scores idx docs)"
    let ?sp = "sorted_desc (\<lambda>x. snd (snd x)) (zip docs (zip ms ?sc))"
    have lsc: "length ?sc = length docs" by (rule doc_scores_of_length)
    have r': "fst (rerank_result scores idx r) =
                r\<lparr>document := Some (map fst ?sp),
                  metadata := Some (map (\<lambda>pair. fst (snd pair)) ?sp)\<rparr>"
      using rerank_result_passages [OF d False, of scores idx] m
      by (simp add: metadata_or_empty_def Let_def)
    have al: "aligned (fst (rerank_result scores idx r))"
      by (simp add: r' aligned_def)
    have "passages (fst (rerank_result scores idx r)) = map (\<lambda>p. (fst p, fst (snd p))) ?sp"
      by (simp add: r' passages_def document_or_empty_def metadata_or_empty_def zip_map_same)
    then have "mset (passages (fst (rerank_result scores idx r)))
                 = image_mset (\<lambda>p. (fst p, fst (snd p))) (mset ?sp)"
      by simp
    also have "\<dots> = mset (map (\<lambda>p. (fst p, fst (snd p))) (zip docs (zip ms ?sc)))"
      by (simp add: mset_sorted_desc)
    also have "\<dots> = mset (zip docs ms)"
    proof -
      have "length ms = length ?sc" by (metis len lsc)
      from zip3_project [OF len this] show ?thesis by (rule arg_cong)
    qed
    also have "\<dots> = mset (passages r)"
      by (simp add: passages_def document_or_empty_def metadata_or_empty_def d m)
    finally show ?thesis using al by simp
  qed
qed

text \<open>
  C3. For every search result whose passages and metadata are index-aligned, a rerank pass,
  whatever the scorer returns or raises, leaves the number of results unchanged and the result
  at the same position aligned again, with the same (passage, metadata) pairs as before, in
  some order: the i-th metadata entry still describes the i-th passage.
\<close>

theorem rerank_preserves_alignment:
  assumes "i < length search_results" and "aligned (search_results ! i)"
  shows "length (fst (rerank_search_results self search_results query st)) = length search_results
         \<and> aligned (fst (rerank_search_results self search_results query st) ! i)
         \<and> mset (passages (fst (rerank_search_results self search_results query st) ! i))
             = mset (passages (search_results ! i))"
proof -
  obtain out st' where r: "rerank_search_results self search_results query st = (out, st')"
    by (cases "rerank_search_results self search_results query st")
  from rerank_search_results_cases [OF r]
  show ?thesis
  proof
    assume "out = search_results"
    with r assms show ?thesis by simp
  next
    assume "\<exists>scores. out = apply_scores scores 0 search_results"
    then obtain scores where out: "out = apply_scores scores 0 search_results" ..
    from apply_scores_nth [OF assms(1), of scores 0]
    obtain j where "out ! i = fst (rerank_result scores j (search_results ! i))"
      using out by auto
    with rerank_result_aligned [OF assms(2), of scores j] r out
    show ?thesis by (simp add: length_apply_scores)
  qed
qed

lemma abc_aligned: "aligned ([abc_source (Some [PInt 1, PInt 2, PInt 3])] ! 0)"
  by (simp add: aligned_def abc_source_def)

theorem rerank_preserves_alignment_witness:
  "0 < length [abc_source (Some [PInt 1, PInt 2, PInt 3])]
   \<and> aligned ([abc_source (Some [PInt 1, PInt 2, PInt 3])] ! 0)
   \<and> length (fst (rerank_search_results (rerank_engine [0.1, 0.9, 0.5])
                 [abc_source (Some [PInt 1, PInt 2, PInt 3])] (PStr ''q'') start_state))
       = length [abc_source (Some [PInt 1, PInt 2, PInt 3])]
   \<and> aligned (fst (rerank_search_results (rerank_engine [0.1, 0.9, 0.5])
                 [abc_source (Some [PInt 1, PInt 2, PInt 3])] (PStr ''q'') start_state) ! 0)
   \<and> mset (passages (fst (rerank_search_results (rerank_engine [0.1, 0.9, 0.5])
                 [abc_source (Some [PInt 1, PInt 2, PInt 3])] (PStr ''q'') start_state) ! 0))
       = mset (passages ([abc_source (Some [PInt 1, PInt 2, PInt 3])] ! 0))"
proof -
  have h: "0 < length [abc_source (Some [PInt 1, PInt 2, PInt 3])]" by simp
  show ?thesis
    using rerank_preserves_alignment [OF h abc_aligned] h abc_aligned by blast
qed

text \<open>
  C4. The claim is that after a rerank pass the sources are in descending order of their top
  passage score. The final \<^verbatim>\<open>search_results.sort\<close> computes its key from
  \<^verbatim>\<open>[0.0] * len(document)\<close>, not from the scores, so the key is 0.0 for every source and
  the stable sort keeps the input order: with scores 0.1 for the passage of the first source
  and 0.9 for that of the second, the first source stays first.
\<close>

theorem rerank_keeps_source_order:
  "fst (rerank_search_results (rerank_engine [0.1, 0.9]) [one_doc ''a'', one_doc ''b'']
          (PStr ''q'') start_state)
     = [one_doc ''a'', one_doc ''b'']"
  by (simp add: rerank_search_results_def rerank_engine_def fixed_scorer_def one_doc_def
      collect_sentences_def external_def start_state_def rerank_result_def sorted_desc_def
      metadata_or_empty_def document_or_empty_def sort_results_def result_sort_key_def)























end
